theory Spec2Isabelle
  imports Main "HOL-Library.Word" "HOL-Library.Sublist"
begin

section \<open>Text\<close>

text \<open>
  A JavaScript string is a sequence of UTF-16 code units. \<open>js\<close> embeds a literal of the
  source (all of them are Latin-1) into that type.
\<close>

type_synonym jschar = "16 word"
type_synonym jsstring = "jschar list"

definition js :: "string \<Rightarrow> jsstring" where
  "js cs = map of_char cs"

text \<open>
  \<open>String.prototype.trim\<close> removes the code units of WhiteSpace and LineTerminator
  (ECMA-262) from both ends.
\<close>

definition isWhitespace :: "jschar \<Rightarrow> bool" where
  "isWhitespace c =
     (c = 0x0009 \<or> c = 0x000A \<or> c = 0x000B \<or> c = 0x000C \<or> c = 0x000D \<or> c = 0x0020 \<or>
      c = 0x00A0 \<or> c = 0x1680 \<or> (0x2000 \<le> c \<and> c \<le> 0x200A) \<or> c = 0x2028 \<or>
      c = 0x2029 \<or> c = 0x202F \<or> c = 0x205F \<or> c = 0x3000 \<or> c = 0xFEFF)"

definition trim :: "jsstring \<Rightarrow> jsstring" where
  "trim t = rev (dropWhile isWhitespace (rev (dropWhile isWhitespace t)))"

text \<open>\<open>String.prototype.includes\<close>: the argument occurs as a contiguous substring.\<close>

fun js_includes :: "jsstring \<Rightarrow> jsstring \<Rightarrow> bool" where
  "js_includes [] sub = (sub = [])"
| "js_includes (c # cs) sub = (prefix sub (c # cs) \<or> js_includes cs sub)"

text \<open>The operator \<open>||\<close> on two results of \<open>Array.prototype.find\<close> (an object is truthy).\<close>

definition orElse :: "'a option \<Rightarrow> 'a option \<Rightarrow> 'a option" where
  "orElse a b = (case a of None \<Rightarrow> b | Some x \<Rightarrow> Some x)"

section \<open>Data model\<close>

text \<open>
  Modelled from the spec: the declarations of \<open>AppStatus\<close> and \<open>ChatMessage\<close> live in
  \<open>types.ts\<close>, which is not among the sources; the spec gives the five status values and
  the two roles, and \<open>App.tsx\<close> uses exactly these.
\<close>

datatype AppStatus = IDLE | LISTENING | THINKING | SPEAKING | ERROR

datatype Role = user | assistant

record ChatMessage =
  role :: Role
  msg_text :: jsstring

text \<open>The fields of a \<open>SpeechSynthesisVoice\<close> that \<open>loadVoices\<close> reads.\<close>

record SpeechSynthesisVoice =
  voice_name :: jsstring
  voice_lang :: jsstring
  voice_default :: bool

text \<open>
  One entry of \<open>event.results\<close>: the transcript of its first alternative
  (\<open>event.results[i][0].transcript\<close>) and its \<open>isFinal\<close> flag.
\<close>

record SpeechRecognitionResult =
  piece :: jsstring
  isFinal :: bool

text \<open>
  The session: the React state and refs of \<open>App\<close>, the part of the platform's state that
  decides which callbacks can fire, and history variables that record what was consumed,
  sent and received.
\<close>

record session =
  \<comment> \<open>\<open>useState\<close>\<close>
  status :: AppStatus
  conversation :: "ChatMessage list"
  error :: "jsstring option"
  transcript :: jsstring
  \<comment> \<open>\<open>useRef\<close>; a ref to an opaque object is modelled by whether it is set\<close>
  chatSessionRef :: bool
  speechRecognitionRef :: bool
  selectedVoiceRef :: "SpeechSynthesisVoice option"
  finalTranscriptRef :: jsstring
  \<comment> \<open>the value of \<open>status\<close> that the \<open>handleRecognitionEnd\<close> now installed as
      \<open>onend\<close> captured: the status of the render whose effect installed it\<close>
  onendStatus :: AppStatus
  \<comment> \<open>platform: \<open>window.speechSynthesis\<close> exists; a capture session is running; the
      utterance being spoken (text and voice); cancelled utterances whose final event
      has not been delivered; calls of \<open>sendMessageToGemini\<close> in flight\<close>
  hasSpeechSynthesis :: bool
  recognizing :: bool
  utterance :: "(jsstring \<times> SpeechSynthesisVoice option) option"
  cancelledUtterances :: nat
  bootPending :: bool
  turnsPending :: nat
  \<comment> \<open>history: non-empty transcripts consumed at a session end; texts passed to
      \<open>sendMessageToGemini\<close>; replies it returned\<close>
  consumed :: "jsstring list"
  sent :: "jsstring list"
  replies :: "jsstring list"

section \<open>Messages of the source\<close>

definition msgSynthesis :: jsstring where
  "msgSynthesis = js (''D'' @ [CHR 0xE9] @ ''sol'' @ [CHR 0xE9] @ '', une erreur de synth''
     @ [CHR 0xE8] @ ''se vocale est survenue.'')"

definition msgNoChatSession :: jsstring where
  "msgNoChatSession = js (''La session de chat n'' @ [CHR 0x27] @ ''est pas initialis''
     @ [CHR 0xE9] @ ''e.'')"

definition msgNoRecognitionAPI :: jsstring where
  "msgNoRecognitionAPI = js (''L'' @ [CHR 0x27] @ ''API de reconnaissance vocale n''
     @ [CHR 0x27] @ ''est pas support'' @ [CHR 0xE9] @ ''e par ce navigateur.'')"

definition msgRecognition :: jsstring where
  "msgRecognition = js ''Une erreur de reconnaissance vocale est survenue.''"

definition msgMicDenied :: jsstring where
  "msgMicDenied = js (''L'' @ [CHR 0x27] @ ''acc'' @ [CHR 0xE8] @ ''s au microphone est refus''
     @ [CHR 0xE9] @ ''. Veuillez l'' @ [CHR 0x27] @ ''autoriser dans les param'' @ [CHR 0xE8]
     @ ''tres de votre navigateur.'')"

definition msgInit :: jsstring where
  "msgInit = js (''Erreur d'' @ [CHR 0x27] @ ''initialisation. V'' @ [CHR 0xE9]
     @ ''rifiez la console.'')"

definition bootPrompt :: jsstring where
  "bootPrompt = js (''Bonjour, pr'' @ [CHR 0xE9] @ ''sente-toi.'')"

section \<open>Speech output\<close>

text \<open>
  \<open>window.speechSynthesis.cancel()\<close>: the utterance being spoken, if any, stops. Its
  \<open>onend\<close> and \<open>onerror\<close> closures stay attached to it, so the platform can still
  deliver its final event.
\<close>

definition synthCancel :: "session \<Rightarrow> session" where
  "synthCancel s =
     (case utterance s of
        None \<Rightarrow> s
      | Some u \<Rightarrow> s\<lparr>utterance := None, cancelledUtterances := Suc (cancelledUtterances s)\<rparr>)"

definition cleanText :: "jsstring \<Rightarrow> jsstring" where
  \<comment> \<open>\<open>text.replace(/\*/g, '')\<close>\<close>
  "cleanText t = filter (\<lambda>c. c \<noteq> 0x2A) t"

definition speak :: "jsstring \<Rightarrow> session \<Rightarrow> session" where
  "speak t s =
     (if \<not> hasSpeechSynthesis s then s
      else
        let s1 = synthCancel s;
            cleanedText = cleanText t;
            s2 = s1\<lparr>status := SPEAKING\<rparr>
        in s2\<lparr>utterance := Some (cleanedText, selectedVoiceRef s2)\<rparr>)"

definition utterance_onend :: "session \<Rightarrow> session" where
  "utterance_onend s = s\<lparr>status := IDLE\<rparr>"

definition utterance_onerror :: "session \<Rightarrow> session" where
  "utterance_onerror s = s\<lparr>error := Some msgSynthesis, status := ERROR\<rparr>"

section \<open>Turns\<close>

text \<open>
  \<open>processUserMessage\<close> up to its \<open>await\<close>, and its continuation. The function has no
  \<open>try\<close>: when the promise of \<open>sendMessageToGemini\<close> rejects, the rest of the body is
  skipped and nothing handles the rejection.
\<close>

definition processUserMessage :: "jsstring \<Rightarrow> session \<Rightarrow> session" where
  "processUserMessage t s =
     (if trim t = [] then s\<lparr>status := IDLE\<rparr>
      else
        let s1 = s\<lparr>conversation := conversation s @ [\<lparr>role = user, msg_text = t\<rparr>]\<rparr>;
            s2 = s1\<lparr>status := THINKING\<rparr>
        in if \<not> chatSessionRef s2
           then s2\<lparr>error := Some msgNoChatSession, status := ERROR\<rparr>
           else s2\<lparr>turnsPending := Suc (turnsPending s2), sent := sent s2 @ [t]\<rparr>)"

definition processUserMessage_resolved :: "jsstring \<Rightarrow> session \<Rightarrow> session" where
  "processUserMessage_resolved assistantResponse s =
     speak assistantResponse
       (s\<lparr>conversation := conversation s @ [\<lparr>role = assistant, msg_text = assistantResponse\<rparr>],
          replies := replies s @ [assistantResponse]\<rparr>)"

definition processUserMessage_rejected :: "session \<Rightarrow> session" where
  "processUserMessage_rejected s = s"

section \<open>Speech input\<close>

fun onresult_loop :: "SpeechRecognitionResult list \<Rightarrow> jsstring \<times> jsstring \<Rightarrow> jsstring \<times> jsstring" where
  "onresult_loop [] acc = acc"
| "onresult_loop (r # rs) (finalTranscript, interimTranscript) =
     (if isFinal r
      then onresult_loop rs (finalTranscript @ piece r @ [0x20], interimTranscript)
      else onresult_loop rs (finalTranscript, interimTranscript @ piece r))"

text \<open>The loop runs over the indices from \<open>event.resultIndex\<close> to the end of \<open>event.results\<close>.\<close>

definition onresult :: "nat \<Rightarrow> SpeechRecognitionResult list \<Rightarrow> session \<Rightarrow> session" where
  "onresult resultIndex results s =
     (case onresult_loop (drop resultIndex results) (finalTranscriptRef s, []) of
        (finalTranscript, interimTranscript) \<Rightarrow>
          s\<lparr>finalTranscriptRef := finalTranscript,
            transcript := finalTranscript @ interimTranscript\<rparr>)"

definition onerror :: "jsstring \<Rightarrow> session \<Rightarrow> session" where
  "onerror code s =
     (let errorMessage =
            (if code = js ''not-allowed'' \<or> code = js ''service-not-allowed''
             then msgMicDenied else msgRecognition)
      in s\<lparr>error := Some errorMessage, status := ERROR\<rparr>)"

text \<open>
  \<open>handleRecognitionEnd\<close> is a closure made by the effect with dependencies
  \<open>[status, processUserMessage]\<close>: its test \<open>status === AppStatus.LISTENING\<close> reads the
  status of the render that made it, not what \<open>setStatus\<close> has been given since.
\<close>

definition handleRecognitionEnd :: "session \<Rightarrow> session" where
  "handleRecognitionEnd s =
     (if onendStatus s = LISTENING
      then
        let t = trim (finalTranscriptRef s);
            s1 = processUserMessage t s
        in s1\<lparr>finalTranscriptRef := [], transcript := [],
              consumed := consumed s1 @ (if t = [] then [] else [t])\<rparr>
      else s)"

text \<open>The effect installs \<open>handleRecognitionEnd\<close> only when the recognition object exists.\<close>

definition onend :: "session \<Rightarrow> session" where
  "onend s = (if speechRecognitionRef s then handleRecognitionEnd s else s)"

text \<open>
  The effect itself, run after a render in which \<open>status\<close> had the value
  \<open>renderedStatus\<close>: it returns at once without a recognition object, and installs a new
  closure otherwise.
\<close>

definition installRecognitionEnd :: "AppStatus \<Rightarrow> session \<Rightarrow> session" where
  "installRecognitionEnd renderedStatus s =
     (if \<not> speechRecognitionRef s then s else s\<lparr>onendStatus := renderedStatus\<rparr>)"

section \<open>The control\<close>

text \<open>
  \<open>speechRecognitionRef.current?.start()\<close> and \<open>?.stop()\<close>. Starting an active session
  and stopping an inactive one do nothing; \<open>stop\<close> only requests the end of the session,
  which the platform reports later by the end event.
\<close>

definition recognitionStart :: "session \<Rightarrow> session" where
  "recognitionStart s = (if speechRecognitionRef s then s\<lparr>recognizing := True\<rparr> else s)"

definition recognitionStop :: "session \<Rightarrow> session" where
  "recognitionStop s = s"

definition handleMicClick :: "session \<Rightarrow> session" where
  "handleMicClick s =
     (let s1 = s\<lparr>error := None\<rparr>
      in if status s = SPEAKING then (synthCancel s1)\<lparr>status := IDLE\<rparr>
         else if status s = LISTENING then recognitionStop s1
         else (recognitionStart (s1\<lparr>finalTranscriptRef := [], transcript := []\<rparr>))
                \<lparr>status := LISTENING\<rparr>)"

text \<open>
  The button carries \<open>disabled={status === AppStatus.THINKING}\<close>: a disabled button
  dispatches no click.
\<close>

definition button_onClick :: "session \<Rightarrow> session" where
  "button_onClick s = (if status s = THINKING then s else handleMicClick s)"

section \<open>Voices\<close>

definition frenchVoice :: "SpeechSynthesisVoice list \<Rightarrow> SpeechSynthesisVoice option" where
  "frenchVoice voices =
     orElse (find (\<lambda>v. voice_lang v = js ''fr-FR'' \<and> js_includes (voice_name v) (js ''Google'')) voices)
    (orElse (find (\<lambda>v. voice_lang v = js ''fr-FR'' \<and> js_includes (voice_name v) (js ''Aurelie'')) voices)
    (orElse (find (\<lambda>v. voice_lang v = js ''fr-FR'' \<and>
                     (js_includes (voice_name v) (js ''Female'') \<or> js_includes (voice_name v) (js ''Femme''))) voices)
    (orElse (find (\<lambda>v. voice_lang v = js ''fr-FR'' \<and> voice_default v) voices)
            (find (\<lambda>v. voice_lang v = js ''fr-FR'') voices))))"

text \<open>\<open>loadVoices\<close>, with the catalog that \<open>getVoices()\<close> returns at that moment.\<close>

definition loadVoices :: "SpeechSynthesisVoice list \<Rightarrow> session \<Rightarrow> session" where
  "loadVoices voices s =
     (if length voices = 0 then s else s\<lparr>selectedVoiceRef := frenchVoice voices\<rparr>)"

section \<open>Start of the session\<close>

text \<open>
  What the platform and the chat service offer when the component mounts: the two speech
  capabilities, the first voice catalog, and whether \<open>createChatSession\<close> returns or
  throws (with the message of the exception; the empty message stands for a falsy one).
\<close>

record platform =
  speechSynthesisAPI :: bool
  speechRecognitionAPI :: bool
  firstVoices :: "SpeechSynthesisVoice list"
  createChatSessionThrows :: "jsstring option"

definition session0 :: "bool \<Rightarrow> session" where
  "session0 synth =
     \<lparr>status = IDLE, conversation = [], error = None, transcript = [],
      chatSessionRef = False, speechRecognitionRef = False, selectedVoiceRef = None,
      finalTranscriptRef = [], onendStatus = IDLE,
      hasSpeechSynthesis = synth, recognizing = False, utterance = None,
      cancelledUtterances = 0, bootPending = False, turnsPending = 0,
      consumed = [], sent = [], replies = []\<rparr>"

text \<open>The \<open>catch\<close> of \<open>initialize\<close>: \<open>e.message || "Erreur d'initialisation. ..."\<close>.\<close>

definition initialize_catch :: "jsstring \<Rightarrow> session \<Rightarrow> session" where
  "initialize_catch message s =
     s\<lparr>error := Some (if message = [] then msgInit else message), status := ERROR\<rparr>"

text \<open>\<open>initialize\<close> up to its \<open>await\<close>, and its continuation.\<close>

definition initialize :: "platform \<Rightarrow> session \<Rightarrow> session" where
  "initialize p s =
     (if \<not> speechRecognitionAPI p then initialize_catch msgNoRecognitionAPI s
      else
        let s1 = s\<lparr>speechRecognitionRef := True\<rparr>
        in case createChatSessionThrows p of
             Some message \<Rightarrow> initialize_catch message s1
           | None \<Rightarrow>
               s1\<lparr>chatSessionRef := True, status := THINKING,
                  bootPending := True, sent := sent s1 @ [bootPrompt]\<rparr>)"

definition initialize_resolved :: "jsstring \<Rightarrow> session \<Rightarrow> session" where
  "initialize_resolved initialMessage s =
     speak initialMessage
       (s\<lparr>conversation := [\<lparr>role = assistant, msg_text = initialMessage\<rparr>],
          replies := replies s @ [initialMessage]\<rparr>)"

text \<open>
  The effects of the first render. The second statement of the mount effect assigns
  \<open>window.speechSynthesis.onvoiceschanged\<close> with no guard: without the synthesis
  capability it throws and \<open>initialize\<close> is never called (the value \<open>None\<close>). Otherwise
  \<open>loadVoices\<close> and \<open>initialize\<close> run, and then the effect that installs the end handler,
  with the status of the first render, \<open>IDLE\<close>.
\<close>

definition mount :: "platform \<Rightarrow> session option" where
  "mount p =
     (if \<not> speechSynthesisAPI p then None
      else Some (installRecognitionEnd IDLE
                   (initialize p (loadVoices (firstVoices p) (session0 True)))))"

section \<open>Events\<close>

text \<open>
  Every callback runs to completion. An event is a click on the button, a callback of the
  platform or of the chat service, or \<open>Rendered\<close>: React has rendered the state the
  callbacks left and has run the effect that installs the end handler. The user clicks on
  what is rendered; an end event of the platform can come before React has rendered, and
  then meets the closure of the render before.
\<close>

datatype event =
    MicClick
  | Rendered
  | VoicesChanged "SpeechSynthesisVoice list"
  | RecResult nat "SpeechRecognitionResult list"
  | RecError jsstring
  | RecEnd
  | BootResolved jsstring
  | BootRejected jsstring
  | TurnResolved jsstring
  | TurnRejected
  | UtteranceEnd
  | UtteranceError
  | LateUtteranceEnd
  | LateUtteranceError

text \<open>
  When the platform can deliver an event: recognition events during a capture session, a
  resolution for a call in flight, a final event for the utterance being spoken or for a
  cancelled one.
\<close>

fun enabled :: "event \<Rightarrow> session \<Rightarrow> bool" where
  "enabled MicClick s = True"
| "enabled Rendered s = True"
| "enabled (VoicesChanged voices) s = hasSpeechSynthesis s"
| "enabled (RecResult resultIndex results) s = recognizing s"
| "enabled (RecError code) s = recognizing s"
| "enabled RecEnd s = recognizing s"
| "enabled (BootResolved r) s = bootPending s"
| "enabled (BootRejected m) s = bootPending s"
| "enabled (TurnResolved r) s = (0 < turnsPending s)"
| "enabled TurnRejected s = (0 < turnsPending s)"
| "enabled UtteranceEnd s = (utterance s \<noteq> None)"
| "enabled UtteranceError s = (utterance s \<noteq> None)"
| "enabled LateUtteranceEnd s = (0 < cancelledUtterances s)"
| "enabled LateUtteranceError s = (0 < cancelledUtterances s)"

fun step :: "event \<Rightarrow> session \<Rightarrow> session" where
  "step MicClick s = button_onClick s"
| "step Rendered s = installRecognitionEnd (status s) s"
| "step (VoicesChanged voices) s = loadVoices voices s"
| "step (RecResult resultIndex results) s = onresult resultIndex results s"
| "step (RecError code) s = onerror code s"
| "step RecEnd s = onend (s\<lparr>recognizing := False\<rparr>)"
| "step (BootResolved r) s = initialize_resolved r (s\<lparr>bootPending := False\<rparr>)"
| "step (BootRejected m) s = initialize_catch m (s\<lparr>bootPending := False\<rparr>)"
| "step (TurnResolved r) s = processUserMessage_resolved r (s\<lparr>turnsPending := turnsPending s - 1\<rparr>)"
| "step TurnRejected s = processUserMessage_rejected (s\<lparr>turnsPending := turnsPending s - 1\<rparr>)"
| "step UtteranceEnd s = utterance_onend (s\<lparr>utterance := None\<rparr>)"
| "step UtteranceError s = utterance_onerror (s\<lparr>utterance := None\<rparr>)"
| "step LateUtteranceEnd s = utterance_onend (s\<lparr>cancelledUtterances := cancelledUtterances s - 1\<rparr>)"
| "step LateUtteranceError s = utterance_onerror (s\<lparr>cancelledUtterances := cancelledUtterances s - 1\<rparr>)"

text \<open>A run: \<open>None\<close> when the platform cannot deliver one of the events.\<close>

fun run :: "event list \<Rightarrow> session \<Rightarrow> session option" where
  "run [] s = Some s"
| "run (e # es) s = (if enabled e s then run es (step e s) else None)"

inductive reachable :: "session \<Rightarrow> bool" where
  mounted: "mount p = Some s \<Longrightarrow> reachable s"
| stepped: "reachable s \<Longrightarrow> enabled e s \<Longrightarrow> reachable (step e s)"

section \<open>Notions used by the properties\<close>

text \<open>
  The fragments that a sequence of result events delivers, in order, and the finalized
  ones among some fragments, each followed by one space.
\<close>

definition delivered :: "(nat \<times> SpeechRecognitionResult list) list \<Rightarrow> SpeechRecognitionResult list" where
  "delivered batches = concat (map (\<lambda>(resultIndex, results). drop resultIndex results) batches)"

definition joinFinal :: "SpeechRecognitionResult list \<Rightarrow> jsstring" where
  "joinFinal rs = concat (map (\<lambda>r. piece r @ [0x20]) (filter isFinal rs))"

definition resultEvents :: "(nat \<times> SpeechRecognitionResult list) list \<Rightarrow> event list" where
  "resultEvents batches = map (\<lambda>(resultIndex, results). RecResult resultIndex results) batches"



text \<open>The texts of the log entries of one role, in the order of the log.\<close>

definition textsOf :: "Role \<Rightarrow> ChatMessage list \<Rightarrow> jsstring list" where
  "textsOf r log = map msg_text (filter (\<lambda>m. role m = r) log)"


text \<open>The last catalog with a voice in it, in a sequence of catalogs.\<close>

fun lastNonEmpty :: "'a list list \<Rightarrow> 'a list option" where
  "lastNonEmpty [] = None"
| "lastNonEmpty (c # cs) =
     (case lastNonEmpty cs of Some d \<Rightarrow> Some d | None \<Rightarrow> if c = [] then None else Some c)"

text \<open>
  The delimiters of emphasis in Markdown, in the words of the spec ("markdown emphasis
  markers"): the asterisk and the underscore.
\<close>

definition emphasisMarker :: "jschar \<Rightarrow> bool" where
  "emphasisMarker c = (c = 0x2A \<or> c = 0x5F)"

section \<open>Example sessions\<close>

definition examplePlatform :: platform where
  "examplePlatform =
     \<lparr>speechSynthesisAPI = True, speechRecognitionAPI = True, firstVoices = [],
      createChatSessionThrows = None\<rparr>"

definition exampleMounted :: session where
  "exampleMounted =
     installRecognitionEnd IDLE (initialize examplePlatform (loadVoices [] (session0 True)))"

definition platformNoSynthesis :: platform where
  "platformNoSynthesis = examplePlatform\<lparr>speechSynthesisAPI := False\<rparr>"

definition bonjour :: SpeechRecognitionResult where
  "bonjour = \<lparr>piece = js ''bonjour'', isFinal = True\<rparr>"

text \<open>
  The greeting is spoken to its end, then the user starts a capture session and React
  renders.
\<close>

definition toListening :: "event list" where
  "toListening = [BootResolved (js ''Bonjour !''), UtteranceEnd, MicClick, Rendered]"

text \<open>Scenario A of the spec, up to the reply of the backend.\<close>

definition scenarioA :: "event list" where
  "scenarioA = toListening @ [RecResult 0 [bonjour], MicClick, RecEnd, TurnResolved (js ''Salut !'')]"

text \<open>Scenario C: the call of the turn fails.\<close>

definition scenarioC :: "event list" where
  "scenarioC = toListening @ [RecResult 0 [bonjour], MicClick, RecEnd, TurnRejected]"

text \<open>Scenario D: the user taps while the greeting is spoken.\<close>

definition scenarioD :: "event list" where
  "scenarioD = [BootResolved (js ''Bonjour !''), MicClick]"

text \<open>
  The user says "bonjour", the capture reports an error, React renders the Error status,
  the session ends, and the user starts again.
\<close>

definition errorThenEnd :: "event list" where
  "errorThenEnd =
     toListening @ [RecResult 0 [bonjour], RecError (js ''network''), Rendered, RecEnd, MicClick]"

text \<open>
  The user interrupts the greeting and starts a capture session, says "bonjour", the
  completion event of the interrupted greeting arrives, React renders the Idle status, the
  session ends, and the user starts again.
\<close>

definition lateEndThenEnd :: "event list" where
  "lateEndThenEnd =
     [BootResolved (js ''Bonjour !''), MicClick, MicClick, Rendered, RecResult 0 [bonjour],
      LateUtteranceEnd, Rendered, RecEnd, MicClick]"

text \<open>
  The states that \<open>toListening\<close>, \<open>scenarioA\<close> without its last event, and \<open>scenarioA\<close>
  lead to.
\<close>

definition exampleListening :: session where
  "exampleListening =
     exampleMounted\<lparr>status := LISTENING, onendStatus := LISTENING,
       conversation := [\<lparr>role = assistant, msg_text = js ''Bonjour !''\<rparr>],
       recognizing := True, bootPending := False, replies := [js ''Bonjour !'']\<rparr>"

definition exampleThinking :: session where
  "exampleThinking =
     exampleMounted\<lparr>status := THINKING, onendStatus := LISTENING,
       conversation := [\<lparr>role = assistant, msg_text = js ''Bonjour !''\<rparr>,
                        \<lparr>role = user, msg_text = js ''bonjour''\<rparr>],
       bootPending := False, turnsPending := 1,
       consumed := [js ''bonjour''], sent := [bootPrompt, js ''bonjour''],
       replies := [js ''Bonjour !'']\<rparr>"

definition exampleReplied :: session where
  "exampleReplied =
     exampleMounted\<lparr>status := SPEAKING, onendStatus := LISTENING,
       conversation := [\<lparr>role = assistant, msg_text = js ''Bonjour !''\<rparr>,
                        \<lparr>role = user, msg_text = js ''bonjour''\<rparr>,
                        \<lparr>role = assistant, msg_text = js ''Salut !''\<rparr>],
       utterance := Some (js ''Salut !'', None), bootPending := False,
       consumed := [js ''bonjour''], sent := [bootPrompt, js ''bonjour''],
       replies := [js ''Bonjour !'', js ''Salut !'']\<rparr>"

definition voiceFR :: SpeechSynthesisVoice where
  "voiceFR = \<lparr>voice_name = js ''Thomas'', voice_lang = js ''fr-FR'', voice_default = True\<rparr>"

definition voiceGoogle :: SpeechSynthesisVoice where
  "voiceGoogle = \<lparr>voice_name = js ''Google fran'' @ [0xE7] @ js ''ais'', voice_lang = js ''fr-FR'',
     voice_default = False\<rparr>"

definition voiceEN :: SpeechSynthesisVoice where
  "voiceEN = \<lparr>voice_name = js ''Samantha'', voice_lang = js ''en-US'', voice_default = False\<rparr>"

text \<open>
  A session state without the synthesis capability, awaiting the reply of a turn (no run
  leads to it).
\<close>

definition exampleNoSynthesis :: session where
  "exampleNoSynthesis =
     (session0 False)\<lparr>status := THINKING, chatSessionRef := True, speechRecognitionRef := True,
        turnsPending := 1\<rparr>"

section \<open>Basic facts\<close>

lemmas handler_defs =
  button_onClick_def handleMicClick_def recognitionStart_def recognitionStop_def
  synthCancel_def speak_def utterance_onend_def utterance_onerror_def processUserMessage_def
  processUserMessage_resolved_def processUserMessage_rejected_def onresult_def onerror_def
  handleRecognitionEnd_def onend_def installRecognitionEnd_def loadVoices_def initialize_def
  initialize_catch_def initialize_resolved_def

lemmas example_defs =
  examplePlatform_def platformNoSynthesis_def exampleMounted_def exampleListening_def
  exampleThinking_def exampleReplied_def exampleNoSynthesis_def toListening_def scenarioA_def
  scenarioC_def scenarioD_def errorThenEnd_def lateEndThenEnd_def
  bonjour_def voiceFR_def voiceGoogle_def voiceEN_def session0_def bootPrompt_def js_def
  trim_def isWhitespace_def cleanText_def


lemma dropWhile_all_iff: "(\<forall>x\<in>set (dropWhile P xs). P x) \<longleftrightarrow> (\<forall>x\<in>set xs. P x)"
  by (induction xs) auto

lemma trim_Nil_iff: "trim t = [] \<longleftrightarrow> list_all isWhitespace t"
  by (simp add: trim_def list_all_iff dropWhile_all_iff)

lemma trim_Nil [simp]: "trim [] = []"
  by (simp add: trim_def)



section \<open>The control while Thinking\<close>



section \<open>The end of a capture session\<close>

text \<open>
  C4. When a capture session ends, its end handler is the one of a render in Listening
  (as it is whenever React has rendered since Status became Listening), and the finalized
  transcript is empty or consists of whitespace, then Status goes to Idle and the
  transcript is cleared; nothing else changes: the log gets no entry and no call of the
  backend is made. This holds whatever Status has been set to since that render.
\<close>

theorem blank_transcript_ends_turn:
  assumes "onendStatus s = LISTENING" and "speechRecognitionRef s"
    and "list_all isWhitespace (finalTranscriptRef s)"
  shows "step RecEnd s =
           s\<lparr>status := IDLE, transcript := [], finalTranscriptRef := [], recognizing := False\<rparr>"
proof -
  have "trim (finalTranscriptRef s) = []"
    using assms(3) by (simp add: trim_Nil_iff)
  then show ?thesis
    using assms(1,2) by (simp add: onend_def handleRecognitionEnd_def processUserMessage_def)
qed

theorem blank_transcript_ends_turn_witness:
  "run toListening exampleMounted = Some exampleListening \<and>
   status exampleListening = LISTENING \<and>
   onendStatus exampleListening = LISTENING \<and> speechRecognitionRef exampleListening \<and>
   list_all isWhitespace (finalTranscriptRef exampleListening) \<and>
   step RecEnd exampleListening =
     exampleListening\<lparr>status := IDLE, transcript := [], finalTranscriptRef := [],
       recognizing := False\<rparr>"
proof -
  have h0: "run toListening exampleMounted = Some exampleListening"
    "status exampleListening = LISTENING"
    by (simp_all add: example_defs handler_defs Let_def)
  have h1: "onendStatus exampleListening = LISTENING"
    and h2: "speechRecognitionRef exampleListening"
    and h3: "list_all isWhitespace (finalTranscriptRef exampleListening)"
    by (simp_all add: example_defs handler_defs)
  show ?thesis using h0 h1 h2 h3 blank_transcript_ends_turn [OF h1 h2 h3] by simp
qed

text \<open>The loop of \<open>onresult\<close> appends the finalized pieces, each with a space, in order.\<close>

lemma onresult_loop_fst:
  "fst (onresult_loop rs (fin, interim)) = fin @ joinFinal rs"
  by (induction rs arbitrary: fin interim) (simp_all add: joinFinal_def)

lemma joinFinal_append: "joinFinal (xs @ ys) = joinFinal xs @ joinFinal ys"
  by (simp add: joinFinal_def)

lemma onresult_eq:
  "\<exists>preview. onresult i rs s =
     s\<lparr>finalTranscriptRef := finalTranscriptRef s @ joinFinal (drop i rs), transcript := preview\<rparr>"
proof -
  obtain fin interim where l: "onresult_loop (drop i rs) (finalTranscriptRef s, []) = (fin, interim)"
    by (cases "onresult_loop (drop i rs) (finalTranscriptRef s, [])")
  have "fin = finalTranscriptRef s @ joinFinal (drop i rs)"
    using onresult_loop_fst [of "drop i rs" "finalTranscriptRef s" "[]"] l by simp
  then show ?thesis using l by (auto simp: onresult_def)
qed

lemma run_resultEvents:
  assumes "recognizing s"
  shows "\<exists>preview. run (resultEvents batches @ es) s =
     run es (s\<lparr>finalTranscriptRef := finalTranscriptRef s @ joinFinal (delivered batches),
              transcript := preview\<rparr>)"
  using assms
proof (induction batches arbitrary: s)
  case Nil
  have "s = s\<lparr>finalTranscriptRef := finalTranscriptRef s, transcript := transcript s\<rparr>" by simp
  then show ?case
    by (metis append_Nil append_Nil2 concat.simps(1) delivered_def joinFinal_def list.simps(8)
        resultEvents_def filter.simps(1))
next
  case (Cons b batches)
  obtain i rs where b: "b = (i, rs)" by (cases b)
  obtain p1 where p1: "onresult i rs s =
      s\<lparr>finalTranscriptRef := finalTranscriptRef s @ joinFinal (drop i rs), transcript := p1\<rparr>"
    using onresult_eq by blast
  let ?s1 = "onresult i rs s"
  have "recognizing ?s1" using Cons.prems p1 by simp
  from Cons.IH [OF this] obtain p2 where p2: "run (resultEvents batches @ es) ?s1 =
     run es (?s1\<lparr>finalTranscriptRef := finalTranscriptRef ?s1 @ joinFinal (delivered batches),
              transcript := p2\<rparr>)"
    by blast
  have d: "delivered (b # batches) = drop i rs @ delivered batches"
    by (simp add: delivered_def b)
  have "run (resultEvents (b # batches) @ es) s = run (resultEvents batches @ es) ?s1"
    using Cons.prems by (simp add: resultEvents_def b)
  also have "\<dots> = run es (s\<lparr>finalTranscriptRef :=
       finalTranscriptRef s @ joinFinal (delivered (b # batches)), transcript := p2\<rparr>)"
    unfolding p2 by (subst (1 2) p1) (simp add: d joinFinal_append)
  finally show ?case by blast
qed

text \<open>
  C3. A capture session starts with an empty accumulator, and its end handler is the one
  of a render in Listening. Whatever result events arrive
  before its end event, the end event has the effect of \<open>processUserMessage\<close> on the
  trimmed concatenation of the finalized fragments they delivered, each followed by one
  space, and clears the transcript. The text depends on the batches only through the
  sequence of fragments delivered, so the grouping into batches does not matter.
\<close>

theorem session_end_consumes_finalized:
  assumes "onendStatus s = LISTENING" and "recognizing s" and "speechRecognitionRef s"
    and "finalTranscriptRef s = []"
  shows "run (resultEvents batches @ [RecEnd]) s =
     (let t = trim (joinFinal (delivered batches));
          s1 = processUserMessage t (s\<lparr>recognizing := False\<rparr>)
      in Some (s1\<lparr>finalTranscriptRef := [], transcript := [],
                   consumed := consumed s @ (if t = [] then [] else [t])\<rparr>))"
proof -
  obtain preview where r: "run (resultEvents batches @ [RecEnd]) s =
     run [RecEnd] (s\<lparr>finalTranscriptRef := finalTranscriptRef s @ joinFinal (delivered batches),
              transcript := preview\<rparr>)"
    using run_resultEvents [OF assms(2)] by blast
  show ?thesis
    unfolding r using assms
    by (simp add: onend_def handleRecognitionEnd_def processUserMessage_def Let_def)
qed

theorem session_end_consumes_finalized_witness:
  "status exampleListening = LISTENING \<and>
   onendStatus exampleListening = LISTENING \<and> recognizing exampleListening \<and>
   speechRecognitionRef exampleListening \<and> finalTranscriptRef exampleListening = [] \<and>
   map_option conversation
     (run (resultEvents [(0, [bonjour]), (1, [bonjour, bonjour])] @ [RecEnd]) exampleListening) =
   Some [\<lparr>role = assistant, msg_text = js ''Bonjour !''\<rparr>,
         \<lparr>role = user, msg_text = js ''bonjour bonjour''\<rparr>]"
proof -
  have h0: "status exampleListening = LISTENING"
    by (simp add: example_defs handler_defs)
  have h1: "onendStatus exampleListening = LISTENING"
    and h2: "recognizing exampleListening"
    and h3: "speechRecognitionRef exampleListening"
    and h4: "finalTranscriptRef exampleListening = []"
    by (simp_all add: example_defs handler_defs)
  have t: "trim (joinFinal (delivered [(0, [bonjour]), (1, [bonjour, bonjour])])) =
           js ''bonjour bonjour''"
    by (simp add: delivered_def joinFinal_def example_defs)
  show ?thesis
    using h0 h1 h2 h3 h4
      session_end_consumes_finalized [OF h1 h2 h3 h4, of "[(0, [bonjour]), (1, [bonjour, bonjour])]"]
    unfolding t
    by (simp add: Let_def processUserMessage_def example_defs handler_defs)
qed

section \<open>The log and the history of a session\<close>







text \<open>A reachable state is the end of a run from a mounted session, and conversely.\<close>

lemma run_snoc:
  "run (es @ [e]) s = (case run es s of None \<Rightarrow> None | Some s' \<Rightarrow> run [e] s')"
  by (induction es arbitrary: s) simp_all

lemma reachable_run:
  "reachable s \<Longrightarrow> \<exists>p s0 es. mount p = Some s0 \<and> run es s0 = Some s"
proof (induction rule: reachable.induct)
  case (mounted p s)
  then have "mount p = Some s \<and> run [] s = Some s" by simp
  then show ?case by blast
next
  case (stepped s e)
  then obtain p s0 es where r: "mount p = Some s0" "run es s0 = Some s" by blast
  then have "run (es @ [e]) s0 = Some (step e s)"
    using stepped.hyps(2) by (simp add: run_snoc)
  with r(1) show ?case by blast
qed





text \<open>
  An end event that comes right after the error event, before React has rendered, meets
  the closure of the render in Listening: the transcript is consumed and sent, and Status
  goes from Error to Thinking.
\<close>

lemma end_before_render_consumes:
  "map_option (\<lambda>s. (status s, textsOf user (conversation s), sent s))
     (run (toListening @ [RecResult 0 [bonjour], RecError (js ''network''), RecEnd]) exampleMounted) =
   Some (THINKING, [js ''bonjour''], [bootPrompt, js ''bonjour''])"
  by (simp add: example_defs handler_defs textsOf_def Let_def)






section \<open>A failing call of the backend\<close>

text \<open>
  C1. Scenario C, run on the code: the greeting is spoken, the user says "bonjour", the
  capture session ends and the call for the turn is rejected. The log keeps the User
  message and gets no Assistant message, but Status stays Thinking and no error message
  is set: \<open>processUserMessage\<close> has no handler for the rejection. The same rejection of
  the greeting request, inside the \<open>try\<close> of \<open>initialize\<close>, does lead to Error.
\<close>

theorem turn_rejection_unhandled:
  "map_option (\<lambda>s. (status s, error s, conversation s)) (run scenarioC exampleMounted) =
     Some (THINKING, None, [\<lparr>role = assistant, msg_text = js ''Bonjour !''\<rparr>,
                            \<lparr>role = user, msg_text = js ''bonjour''\<rparr>]) \<and>
   map_option (\<lambda>s. (status s, error s)) (run [BootRejected []] exampleMounted) =
     Some (ERROR, Some msgInit)"
  by (simp add: example_defs handler_defs Let_def)

section \<open>Interrupting the voice\<close>




section \<open>The cached voice\<close>

text \<open>
  C7, as the spec has it, fails on the code: with a voice cached, a catalog that offers
  a preferred French voice replaces it, and a catalog without a French voice resets the
  cache to null.
\<close>

theorem cached_voice_overwritten_counterexample:
  "selectedVoiceRef (loadVoices [voiceFR] (session0 True)) = Some voiceFR \<and>
   selectedVoiceRef (loadVoices [voiceFR, voiceGoogle] (loadVoices [voiceFR] (session0 True))) =
     Some voiceGoogle \<and>
   selectedVoiceRef (loadVoices [voiceEN] (loadVoices [voiceFR] (session0 True))) = None"
  by (simp add: loadVoices_def frenchVoice_def orElse_def example_defs)

text \<open>
  C7, amended. After any sequence of invocations of \<open>loadVoices\<close> the cached voice is
  the selection made on the last catalog that was not empty, null when that catalog has
  no French voice; it is the voice cached before when every catalog was empty. So a
  later successful resolution replaces a null, an empty catalog never touches the cache,
  and a catalog with voices always overwrites it.
\<close>

theorem cached_voice_follows_last_catalog:
  "selectedVoiceRef (fold loadVoices catalogs s) =
     (case lastNonEmpty catalogs of
        None \<Rightarrow> selectedVoiceRef s
      | Some voices \<Rightarrow> frenchVoice voices)"
proof (induction catalogs arbitrary: s)
  case Nil
  show ?case by simp
next
  case (Cons c catalogs)
  show ?case
  proof (cases "lastNonEmpty catalogs")
    case None
    then show ?thesis using Cons.IH [of "loadVoices c s"] by (simp add: loadVoices_def)
  next
    case (Some d)
    then show ?thesis using Cons.IH [of "loadVoices c s"] by simp
  qed
qed

section \<open>The text that is spoken\<close>

text \<open>
  C9, as the spec has it, fails on the code: emphasis written with underscores reaches
  the synthesis as it is.
\<close>

theorem underscore_emphasis_spoken_counterexample:
  "utterance (speak (js ''_oui_'') (session0 True)) = Some (js ''_oui_'', None) \<and>
   list_ex emphasisMarker (js ''_oui_'')"
  by (simp add: speak_def synthCancel_def emphasisMarker_def example_defs)

lemma count_list_cleanText: "c \<noteq> 0x2A \<Longrightarrow> count_list (cleanText t) c = count_list t c"
  by (induction t) (auto simp: cleanText_def)

text \<open>
  C9, amended. With the synthesis capability present, the text passed to synthesis is
  the input with every asterisk removed and nothing else changed: it contains no
  asterisk, it is a subsequence of the input, and it has as many occurrences of every
  other code unit as the input. Underscores are kept.
\<close>

theorem speak_strips_asterisks:
  assumes "hasSpeechSynthesis s"
  shows "map_option fst (utterance (speak t s)) = Some (cleanText t) \<and>
         0x2A \<notin> set (cleanText t) \<and> subseq (cleanText t) t \<and>
         count_list (cleanText t) 0x5F = count_list t 0x5F \<and>
         (\<forall>c. c \<noteq> 0x2A \<longrightarrow> count_list (cleanText t) c = count_list t c)"
proof -
  have "map_option fst (utterance (speak t s)) = Some (cleanText t)"
    using assms by (simp add: speak_def Let_def)
  moreover have "0x2A \<notin> set (cleanText t)" by (simp add: cleanText_def)
  moreover have "subseq (cleanText t) t" by (simp add: cleanText_def)
  ultimately show ?thesis by (simp add: count_list_cleanText)
qed

theorem speak_strips_asterisks_witness:
  "hasSpeechSynthesis (session0 True) \<and>
   map_option fst (utterance (speak (js ''**Salut** _toi_ !'') (session0 True))) =
     Some (js ''Salut _toi_ !'')"
proof -
  have h: "hasSpeechSynthesis (session0 True)" by (simp add: session0_def)
  have c: "cleanText (js ''**Salut** _toi_ !'') = js ''Salut _toi_ !''"
    by (simp add: cleanText_def js_def)
  show ?thesis using h speak_strips_asterisks [OF h, of "js ''**Salut** _toi_ !''"] c by simp
qed

section \<open>A platform without speech synthesis\<close>





end
